theory Spec2Isabelle
  imports Main "HOL-Library.Word" "HOL-Library.Multiset" "HOL-Library.Sublist"
begin

section \<open>The password generator of main.cpp\<close>

text \<open>
  The program is one composite object over leaf generators. A leaf holds a requested
  length and names an alphabet; the composite holds a Mersenne-Twister engine, a random
  device and the ordered sequence of generators added to it. \<open>Generate\<close> draws, for each
  generator in turn, as many characters of its alphabet as it asks for, and shuffles
  the string so obtained.

  Three things the C++ leaves to its environment are made explicit here.
  \<^item> The standard library's random facilities are not code of this program. They are
    taken as parameters (the record \<open>stdlib\<close>), and what the C++ standard promises of
    them is the predicate \<open>stdlib_ok\<close>.
  \<^item> An exception is a value: every operation returns \<open>error + 'a\<close>.
  \<^item> Undefined behaviour (a call outside a library precondition) is a value as well,
    \<open>undefined_behaviour\<close>, distinct from every exception: nothing is promised there.
  Lengths are \<open>size_t\<close> in the source and \<open>nat\<close> here: no length is ever added to
  another or decremented, so no wrap-around of a length can occur. Running out of memory
  is not modelled.
\<close>

subsection \<open>Outcomes\<close>

datatype error =
    runtime_error string  \<comment> \<open>\<open>throw std::runtime_error(msg)\<close>\<close>
  | undefined_behaviour   \<comment> \<open>a violated precondition of the standard library\<close>

subsection \<open>The class hierarchy\<close>

text \<open>
  \<open>PasswordGenerator\<close> is the abstract interface. \<open>Basic\<close> is an object of a subclass of
  \<open>BasicPasswordGenerator\<close>: its field \<open>len_\<close>, and the string that its override of
  \<open>AllowedChars\<close> returns. \<open>Composite\<close> is a \<open>CompositePasswordGenerator\<close> with its three
  fields. \<open>'e\<close> is the state of a \<open>std::mt19937\<close>, \<open>'r\<close> that of a \<open>std::random_device\<close>.
  The members \<open>len_\<close>, \<open>eng_\<close>, \<open>rd_\<close> and \<open>generators_\<close> are the selectors \<open>m_len\<close>,
  \<open>m_eng\<close>, \<open>m_rd\<close> and \<open>m_generators\<close> (a name cannot end with an underscore here).
\<close>

datatype ('e, 'r) PasswordGenerator =
    Basic (allowed: string) (m_len: nat)
  | Composite (m_eng: 'e) (m_rd: 'r) (m_generators: "('e, 'r) PasswordGenerator list")

definition DigitGenerator :: "nat \<Rightarrow> ('e, 'r) PasswordGenerator" where
  "DigitGenerator len = Basic ''0123456789'' len"

definition SymbolGenerator :: "nat \<Rightarrow> ('e, 'r) PasswordGenerator" where
  "SymbolGenerator len = Basic ''!@#$%^&*()[]{}?<>'' len"

definition UpperLetterGenerator :: "nat \<Rightarrow> ('e, 'r) PasswordGenerator" where
  "UpperLetterGenerator len = Basic ''ABCDEFGHIJKLMNOPQRSTUVXYWZ'' len"

definition LowerLetterGenerator :: "nat \<Rightarrow> ('e, 'r) PasswordGenerator" where
  "LowerLetterGenerator len = Basic ''abcdefghijklmnopqrstuvxywz'' len"

fun AllowedChars :: "('e, 'r) PasswordGenerator \<Rightarrow> error + string" where
  "AllowedChars (Basic chars len) = Inr chars"
| "AllowedChars (Composite eng rd gens) = Inl (runtime_error ''not implemented'')"

fun Length :: "('e, 'r) PasswordGenerator \<Rightarrow> error + nat" where
  "Length (Basic chars len) = Inr len"
| "Length (Composite eng rd gens) = Inl (runtime_error ''not implemented'')"

fun Add :: "('e, 'r) PasswordGenerator \<Rightarrow> ('e, 'r) PasswordGenerator
    \<Rightarrow> error + ('e, 'r) PasswordGenerator" where
  "Add (Basic chars len) generator = Inl (runtime_error ''not implemented'')"
| "Add (Composite eng rd gens) generator = Inr (Composite eng rd (gens @ [generator]))"

subsection \<open>The standard library, as parameters\<close>

text \<open>
  \<^item> \<open>rd_call\<close> is \<open>std::random_device::operator()\<close>: an \<open>unsigned int\<close> and the device
    after the call;
  \<^item> \<open>eng_seed\<close> is \<open>std::seed_seq\<close> over the seed data followed by
    \<open>std::mt19937::seed\<close>;
  \<^item> \<open>ud a b\<close> is a call of a \<open>std::uniform_int_distribution<int>\<close> built with
    bounds \<open>a\<close> and \<open>b\<close>, on an engine: the number drawn and the engine after it;
  \<^item> \<open>shuffle\<close> is \<open>std::shuffle\<close> over a whole string with an engine.
\<close>

record ('e, 'r) stdlib =
  rd_call :: "'r \<Rightarrow> 32 word \<times> 'r"
  eng_seed :: "32 word list \<Rightarrow> 'e"
  ud :: "int \<Rightarrow> int \<Rightarrow> 'e \<Rightarrow> int \<times> 'e"
  shuffle :: "string \<Rightarrow> 'e \<Rightarrow> string \<times> 'e"

text \<open>
  The contract of the C++ standard: a distribution built with \<open>a \<le> b\<close> returns a
  number of \<open>[a, b]\<close>, and \<open>std::shuffle\<close> permutes its range.
\<close>

definition stdlib_ok :: "('e, 'r) stdlib \<Rightarrow> bool" where
  "stdlib_ok L \<longleftrightarrow>
     (\<forall>a b e. a \<le> b \<longrightarrow> a \<le> fst (ud L a b e) \<and> fst (ud L a b e) \<le> b) \<and>
     (\<forall>s e. mset (fst (shuffle L s e)) = mset s)"

subsection \<open>The constructor of the composite\<close>

text \<open>\<open>std::generate\<close> over \<open>n\<close> cells with \<open>std::ref(rd_)\<close>: \<open>n\<close> calls of the device.\<close>

fun std_generate :: "('e, 'r) stdlib \<Rightarrow> nat \<Rightarrow> 'r \<Rightarrow> 32 word list \<times> 'r" where
  "std_generate L 0 rd = ([], rd)"
| "std_generate L (Suc n) rd =
     (case rd_call L rd of (x, rd') \<Rightarrow>
        (case std_generate L n rd' of (xs, rd'') \<Rightarrow> (x # xs, rd'')))"

definition state_size :: nat where
  "state_size = 624"

definition CompositePasswordGenerator :: "('e, 'r) stdlib \<Rightarrow> 'r \<Rightarrow> ('e, 'r) PasswordGenerator" where
  "CompositePasswordGenerator L rd =
     (case std_generate L state_size rd of (seed_data, rd') \<Rightarrow>
        Composite (eng_seed L seed_data) rd' [])"

subsection \<open>Generate\<close>

text \<open>
  \<open>static_cast<int>(chars.length() - 1)\<close>: the subtraction is on \<open>size_t\<close> (64 bits) and
  wraps at length 0; the cast keeps the low 32 bits, read as two's complement.
\<close>

definition ud_upper :: "string \<Rightarrow> int" where
  "ud_upper chars = sint (ucast ((of_nat (length chars) :: 64 word) - 1) :: 32 word)"

text \<open>
  \<open>chars[idx]\<close> with an \<open>int\<close> index: the index converts to \<open>size_t\<close>, so a negative one
  is far out of range. \<open>std::string::operator[]\<close> gives the terminating null character
  at \<open>size()\<close> and is undefined beyond it.
\<close>

definition string_at :: "string \<Rightarrow> int \<Rightarrow> error + char" where
  "string_at chars idx =
     (if 0 \<le> idx \<and> idx < int (length chars) then Inr (chars ! nat idx)
      else if idx = int (length chars) then Inr (CHR 0x00)
      else Inl undefined_behaviour)"

text \<open>
  The inner loop, \<open>for (size_t i = 0; i < generator->Length(); ++i)\<close>, from a given
  \<open>i\<close>: \<open>Length\<close> is called at every test, the distribution is called on the engine, and
  the character at the number drawn is appended.
\<close>

function draw_loop :: "('e, 'r) stdlib \<Rightarrow> ('e, 'r) PasswordGenerator \<Rightarrow> string \<Rightarrow> int
    \<Rightarrow> nat \<Rightarrow> string \<Rightarrow> 'e \<Rightarrow> error + (string \<times> 'e)" where
  "draw_loop L generator chars b i password eng =
     (case Length generator of
        Inl x \<Rightarrow> Inl x
      | Inr n \<Rightarrow>
          if i < n then
            (case ud L 0 b eng of (idx, eng') \<Rightarrow>
               (case string_at chars idx of
                  Inl x \<Rightarrow> Inl x
                | Inr c \<Rightarrow> draw_loop L generator chars b (i + 1) (password @ [c]) eng'))
          else Inr (password, eng))"
  by pat_completeness auto
termination
  by (relation "measure (\<lambda>(L, generator, chars, b, i, password, eng).
        (case Length generator of Inl x \<Rightarrow> 0 | Inr n \<Rightarrow> n - i))") auto

declare draw_loop.simps [simp del]

text \<open>
  The outer loop over \<open>generators_\<close>. Building the distribution with an upper bound
  below 0 violates its precondition \<open>a \<le> b\<close>.
\<close>

fun generate_loop :: "('e, 'r) stdlib \<Rightarrow> ('e, 'r) PasswordGenerator list \<Rightarrow> string \<Rightarrow> 'e
    \<Rightarrow> error + (string \<times> 'e)" where
  "generate_loop L [] password eng = Inr (password, eng)"
| "generate_loop L (generator # rest) password eng =
     (case AllowedChars generator of
        Inl x \<Rightarrow> Inl x
      | Inr chars \<Rightarrow>
          if ud_upper chars < 0 then Inl undefined_behaviour
          else
            (case draw_loop L generator chars (ud_upper chars) 0 password eng of
               Inl x \<Rightarrow> Inl x
             | Inr (password', eng') \<Rightarrow> generate_loop L rest password' eng'))"

text \<open>
  \<open>Generate\<close> returns the password and the object after the call: only \<open>eng_\<close> has
  changed. A leaf throws.
\<close>

fun Generate :: "('e, 'r) stdlib \<Rightarrow> ('e, 'r) PasswordGenerator
    \<Rightarrow> error + (string \<times> ('e, 'r) PasswordGenerator)" where
  "Generate L (Basic chars len) = Inl (runtime_error ''not implemented'')"
| "Generate L (Composite eng rd gens) =
     (case generate_loop L gens [] eng of
        Inl x \<Rightarrow> Inl x
      | Inr (password, eng') \<Rightarrow>
          (case shuffle L password eng' of (password', eng'') \<Rightarrow>
             Inr (password', Composite eng'' rd gens)))"

subsection \<open>The entry point\<close>

definition main_generator :: "('e, 'r) stdlib \<Rightarrow> 'r \<Rightarrow> error + ('e, 'r) PasswordGenerator" where
  "main_generator L rd =
     (case Add (CompositePasswordGenerator L rd) (SymbolGenerator 2) of
        Inl x \<Rightarrow> Inl x
      | Inr g1 \<Rightarrow>
     (case Add g1 (DigitGenerator 2) of
        Inl x \<Rightarrow> Inl x
      | Inr g2 \<Rightarrow>
     (case Add g2 (UpperLetterGenerator 2) of
        Inl x \<Rightarrow> Inl x
      | Inr g3 \<Rightarrow> Add g3 (LowerLetterGenerator 4))))"

text \<open>\<open>main\<close>: the text written to standard output, the password and a newline.\<close>

definition main :: "('e, 'r) stdlib \<Rightarrow> 'r \<Rightarrow> error + string" where
  "main L rd =
     (case main_generator L rd of
        Inl x \<Rightarrow> Inl x
      | Inr generator \<Rightarrow>
          (case Generate L generator of
             Inl x \<Rightarrow> Inl x
           | Inr (password, generator') \<Rightarrow> Inr (password @ [CHR 0x0A])))"

subsection \<open>Vocabulary of the properties\<close>

text \<open>
  A class that \<open>Generate\<close> can draw from: a leaf whose alphabet is not empty and has at
  most \<open>2 ^ 31\<close> characters, so that the upper bound of its distribution, an \<open>int\<close>,
  is its last index.
\<close>

definition valid_class :: "('e, 'r) PasswordGenerator \<Rightarrow> bool" where
  "valid_class g =
     (case g of
        Basic chars len \<Rightarrow> chars \<noteq> [] \<and> length chars \<le> 2 ^ 31
      | Composite e r gs \<Rightarrow> False)"

text \<open>
  \<open>drawn_from g part\<close>: \<open>part\<close> has as many characters as \<open>g\<close> asks for, each of the
  alphabet of \<open>g\<close>.
\<close>

definition drawn_from :: "('e, 'r) PasswordGenerator \<Rightarrow> string \<Rightarrow> bool" where
  "drawn_from g part \<longleftrightarrow>
     Length g = Inr (length part) \<and>
     (case AllowedChars g of Inl x \<Rightarrow> False | Inr chars \<Rightarrow> set part \<subseteq> set chars)"

definition alphabet :: "('e, 'r) PasswordGenerator \<Rightarrow> char set" where
  "alphabet g = (case AllowedChars g of Inl x \<Rightarrow> {} | Inr chars \<Rightarrow> set chars)"

text \<open>What a caller of \<open>Generate\<close> observes: the password and the engine after the call.\<close>

definition password_and_engine ::
    "error + (string \<times> ('e, 'r) PasswordGenerator) \<Rightarrow> error + (string \<times> 'e)" where
  "password_and_engine res =
     (case res of Inl x \<Rightarrow> Inl x | Inr (password, g) \<Rightarrow> Inr (password, m_eng g))"

text \<open>
  A small library that meets \<open>stdlib_ok\<close>, to run the program on: the engine and the
  device are counters, the distribution reduces the counter into the range, and the
  shuffle rotates the string by the counter.
\<close>

definition toy :: "(nat, nat) stdlib" where
  "toy = \<lparr> rd_call = (\<lambda>r. (of_nat r, Suc r)),
           eng_seed = (\<lambda>ws. length ws),
           ud = (\<lambda>a b e. (a + int e mod (b - a + 1), Suc e)),
           shuffle = (\<lambda>s e. (rotate e s, Suc e)) \<rparr>"

section \<open>Properties\<close>

subsection \<open>The upper bound of the distribution\<close>

lemma size_minus_one: "(of_nat n :: 64 word) - 1 = word_of_int (int n - 1)"
  by simp

lemma ucast_word_of_int_32: "(ucast (word_of_int k :: 64 word) :: 32 word) = word_of_int k"
  apply transfer
  apply (simp add: min_def)
  done

lemma ud_upper_int: "ud_upper cs = signed_take_bit 31 (int (length cs) - 1)"
proof -
  have "ud_upper cs = sint (ucast (word_of_int (int (length cs) - 1) :: 64 word) :: 32 word)"
    by (simp only: ud_upper_def size_minus_one)
  also have "\<dots> = sint (word_of_int (int (length cs) - 1) :: 32 word)"
    by (simp only: ucast_word_of_int_32)
  also have "\<dots> = signed_take_bit (LENGTH(32) - 1) (int (length cs) - 1)"
    by (simp only: sint_sbintrunc')
  finally show ?thesis by simp
qed


lemma ud_upper_small:
  assumes "cs \<noteq> []" "length cs \<le> 2 ^ 31"
  shows "ud_upper cs = int (length cs) - 1"
proof -
  have "0 < length cs" using assms(1) by simp
  then have "- (2 ^ 31) \<le> int (length cs) - 1 \<and> int (length cs) - 1 < 2 ^ 31"
    using assms(2) by auto
  then show ?thesis
    unfolding ud_upper_int by (simp only: signed_take_bit_int_eq_self_iff)
qed

lemma ud_upper_nonneg:
  assumes "0 \<le> ud_upper cs"
  shows "cs \<noteq> [] \<and> ud_upper cs < int (length cs)"
proof -
  have ne: "cs \<noteq> []"
  proof
    assume "cs = []"
    then have "ud_upper cs = -1" by (simp add: ud_upper_int)
    with assms show False by simp
  qed
  then have "- (2 ^ 31) \<le> int (length cs) - 1" by simp
  then have "signed_take_bit 31 (int (length cs) - 1) \<le> int (length cs) - 1"
    by (simp only: signed_take_bit_int_less_eq_self_iff)
  then show ?thesis using ne by (simp add: ud_upper_int)
qed

subsection \<open>The sample library\<close>

lemma mset_rotate1_eq: "mset (rotate1 s) = mset s"
  by (cases s) simp_all

lemma mset_rotate_eq: "mset (rotate n s) = mset s"
  by (induction n) (simp_all add: mset_rotate1_eq)

lemma toy_ud_range:
  assumes "a \<le> b"
  shows "a \<le> a + int e mod (b - a + 1) \<and> a + int e mod (b - a + 1) \<le> b"
proof -
  have pos: "0 < b - a + 1" using assms by simp
  have "0 \<le> int e mod (b - a + 1)" using pos by (rule pos_mod_sign)
  moreover have "int e mod (b - a + 1) < b - a + 1" using pos by (rule pos_mod_bound)
  ultimately show ?thesis by simp
qed

lemma toy_ok: "stdlib_ok toy"
  unfolding stdlib_ok_def by (simp add: toy_def toy_ud_range mset_rotate_eq)

subsection \<open>What the contract gives\<close>

lemma ud_range:
  assumes "stdlib_ok L" "a \<le> b" "ud L a b e = (idx, e')"
  shows "a \<le> idx \<and> idx \<le> b"
proof -
  have "a \<le> fst (ud L a b e) \<and> fst (ud L a b e) \<le> b"
    using assms(1,2) unfolding stdlib_ok_def by blast
  then show ?thesis by (simp add: assms(3))
qed

lemma shuffle_mset:
  assumes "stdlib_ok L" "shuffle L s e = (s', e')"
  shows "mset s' = mset s"
proof -
  have "mset (fst (shuffle L s e)) = mset s"
    using assms(1) unfolding stdlib_ok_def by blast
  then show ?thesis by (simp add: assms(2))
qed

subsection \<open>The inner loop\<close>

lemma string_at_in_range:
  assumes "0 \<le> idx" "idx < int (length chars)"
  shows "string_at chars idx = Inr (chars ! nat idx) \<and> chars ! nat idx \<in> set chars"
  using assms by (simp add: string_at_def)

lemma draw_loop_Basic:
  assumes ok: "stdlib_ok L" and b: "0 \<le> b" "b < int (length chars)"
  shows "\<exists>ds e'. draw_loop L (Basic cs n) chars b i pw e = Inr (pw @ ds, e')
           \<and> length ds = n - i \<and> set ds \<subseteq> set chars"
proof (induction "n - i" arbitrary: i pw e)
  case 0
  then have "draw_loop L (Basic cs n) chars b i pw e = Inr (pw @ [], e)"
    by (simp add: draw_loop.simps)
  with 0 show ?case by fastforce
next
  case (Suc k)
  then have lt: "i < n" and k: "k = n - (i + 1)" by simp_all
  obtain idx e1 where d: "ud L 0 b e = (idx, e1)" by (cases "ud L 0 b e")
  from ud_range [OF ok b(1) d] b(2) have "0 \<le> idx" "idx < int (length chars)" by simp_all
  from string_at_in_range [OF this]
  have at: "string_at chars idx = Inr (chars ! nat idx)" and mem: "chars ! nat idx \<in> set chars"
    by simp_all
  from Suc.hyps(1) [OF k] obtain ds e' where
    r: "draw_loop L (Basic cs n) chars b (i + 1) (pw @ [chars ! nat idx]) e1
          = Inr ((pw @ [chars ! nat idx]) @ ds, e')"
    and l: "length ds = n - (i + 1)" and s: "set ds \<subseteq> set chars"
    by blast
  have "draw_loop L (Basic cs n) chars b i pw e = Inr (pw @ (chars ! nat idx # ds), e')"
    using lt d at r by (subst draw_loop.simps) simp
  moreover have "length (chars ! nat idx # ds) = n - i" using l lt by simp
  moreover have "set (chars ! nat idx # ds) \<subseteq> set chars" using s mem by simp
  ultimately show ?case by blast
qed

lemma draw_loop_Basic_error:
  "draw_loop L (Basic cs n) chars b i pw e = Inl x \<Longrightarrow> x = undefined_behaviour"
proof (induction "n - i" arbitrary: i pw e)
  case 0
  then show ?case by (simp add: draw_loop.simps)
next
  case (Suc k)
  then have lt: "i < n" and k: "k = n - (i + 1)" by simp_all
  obtain idx e1 where d: "ud L 0 b e = (idx, e1)" by (cases "ud L 0 b e")
  show ?case
  proof (cases "string_at chars idx")
    case (Inl y)
    then have "y = undefined_behaviour"
      by (auto simp: string_at_def split: if_splits)
    moreover have "draw_loop L (Basic cs n) chars b i pw e = Inl y"
      using lt d Inl by (subst draw_loop.simps) simp
    ultimately show ?thesis using Suc.prems by simp
  next
    case (Inr c)
    have "draw_loop L (Basic cs n) chars b i pw e
            = draw_loop L (Basic cs n) chars b (i + 1) (pw @ [c]) e1"
      using lt d Inr by (subst draw_loop.simps) simp
    with Suc.prems Suc.hyps(1) [OF k] show ?thesis by simp
  qed
qed

lemma draw_loop_Composite:
  "draw_loop L (Composite e0 r0 gs) chars b i pw e = Inl (runtime_error ''not implemented'')"
  by (simp add: draw_loop.simps)

subsection \<open>The outer loop\<close>

lemma generate_loop_parts:
  assumes ok: "stdlib_ok L"
  shows "generate_loop L gs pw e = Inr (pw', e') \<Longrightarrow>
           \<exists>parts. pw' = pw @ concat parts \<and> list_all2 drawn_from gs parts"
proof (induction gs arbitrary: pw e)
  case Nil
  then show ?case by simp
next
  case (Cons g rest)
  show ?case
  proof (cases g)
    case (Composite e0 r0 gs0)
    with Cons.prems show ?thesis by simp
  next
    case (Basic cs n)
    with Cons.prems have nonneg: "0 \<le> ud_upper cs" by (simp split: if_splits)
    from ud_upper_nonneg [OF this] have lt: "ud_upper cs < int (length cs)" by simp
    from draw_loop_Basic [OF ok nonneg lt] obtain ds e1 where
      d: "draw_loop L (Basic cs n) cs (ud_upper cs) 0 pw e = Inr (pw @ ds, e1)"
      and l: "length ds = n - 0" and s: "set ds \<subseteq> set cs"
      by blast
    from Cons.prems Basic nonneg d have "generate_loop L rest (pw @ ds) e1 = Inr (pw', e')"
      by simp
    from Cons.IH [OF this] obtain parts where
      p: "pw' = (pw @ ds) @ concat parts" and a: "list_all2 drawn_from rest parts"
      by blast
    have "drawn_from g ds" using Basic l s by (simp add: drawn_from_def)
    with a have "list_all2 drawn_from (g # rest) (ds # parts)" by simp
    moreover have "pw' = pw @ concat (ds # parts)" using p by simp
    ultimately show ?thesis by blast
  qed
qed

lemma generate_loop_returns:
  assumes ok: "stdlib_ok L"
  shows "\<forall>g\<in>set gs. valid_class g \<Longrightarrow> \<exists>pw' e'. generate_loop L gs pw e = Inr (pw', e')"
proof (induction gs arbitrary: pw e)
  case Nil
  then show ?case by simp
next
  case (Cons g rest)
  then have "valid_class g" by simp
  then obtain cs n where g: "g = Basic cs n" and ne: "cs \<noteq> []" and le: "length cs \<le> 2 ^ 31"
    by (cases g) (simp_all add: valid_class_def)
  from ud_upper_small [OF ne le] ne have nonneg: "0 \<le> ud_upper cs"
    and lt: "ud_upper cs < int (length cs)" by simp_all
  from draw_loop_Basic [OF ok nonneg lt] obtain ds e1 where
    d: "draw_loop L (Basic cs n) cs (ud_upper cs) 0 pw e = Inr (pw @ ds, e1)"
    by blast
  from Cons.prems have "\<forall>g\<in>set rest. valid_class g" by simp
  from Cons.IH [OF this] obtain pw' e' where "generate_loop L rest (pw @ ds) e1 = Inr (pw', e')"
    by blast
  then show ?case using g nonneg d by simp
qed

lemma generate_loop_reaches_composite:
  assumes ok: "stdlib_ok L"
  shows "\<forall>g\<in>set xs. valid_class g \<Longrightarrow>
           generate_loop L (xs @ Composite e2 r2 gs2 # ys) pw e
             = Inl (runtime_error ''not implemented'')"
proof (induction xs arbitrary: pw e)
  case Nil
  then show ?case by simp
next
  case (Cons g rest)
  then have "valid_class g" by simp
  then obtain cs n where g: "g = Basic cs n" and ne: "cs \<noteq> []" and le: "length cs \<le> 2 ^ 31"
    by (cases g) (simp_all add: valid_class_def)
  from ud_upper_small [OF ne le] ne have nonneg: "0 \<le> ud_upper cs"
    and lt: "ud_upper cs < int (length cs)" by simp_all
  from draw_loop_Basic [OF ok nonneg lt] obtain ds e1 where
    d: "draw_loop L (Basic cs n) cs (ud_upper cs) 0 pw e = Inr (pw @ ds, e1)"
    by blast
  from Cons.prems have "\<forall>g\<in>set rest. valid_class g" by simp
  from Cons.IH [OF this, of "pw @ ds" e1] show ?case using g nonneg d by simp
qed

lemma generate_loop_leaves_error:
  assumes "\<forall>g\<in>set gs. is_Basic g" "generate_loop L gs pw e = Inl x"
  shows "x = undefined_behaviour"
  using assms
proof (induction gs arbitrary: pw e)
  case Nil
  then show ?case by simp
next
  case (Cons g rest)
  then obtain cs n where g: "g = Basic cs n" by (cases g) simp_all
  from Cons.prems have rest: "\<forall>g\<in>set rest. is_Basic g" by simp
  show ?case
  proof (cases "ud_upper cs < 0")
    case True
    with Cons.prems show ?thesis by (simp add: g)
  next
    case False
    show ?thesis
    proof (cases "draw_loop L (Basic cs n) cs (ud_upper cs) 0 pw e")
      case (Inl y)
      from draw_loop_Basic_error [OF Inl] Inl False Cons.prems show ?thesis by (simp add: g)
    next
      case (Inr res)
      obtain pw1 e1 where "res = (pw1, e1)" by (cases res)
      with Inr False Cons.prems have "generate_loop L rest pw1 e1 = Inl x" by (simp add: g)
      from Cons.IH [OF rest this] show ?thesis .
    qed
  qed
qed

lemma draw_loop_zero:
  "draw_loop L (Basic cs 0) chars b 0 pw e = Inr (pw, e)"
  by (simp add: draw_loop.simps)

lemma generate_loop_zero_length:
  assumes "chars \<noteq> []" "length chars \<le> 2 ^ 31"
  shows "generate_loop L (xs @ Basic chars 0 # ys) pw e = generate_loop L (xs @ ys) pw e"
proof (induction xs arbitrary: pw e)
  case Nil
  from ud_upper_small [OF assms] assms(1) have "\<not> ud_upper chars < 0" by simp
  then show ?case by (simp add: draw_loop_zero)
next
  case (Cons x xs)
  then show ?case by (simp split: sum.splits prod.splits)
qed

lemma drawn_from_length: "drawn_from g p \<Longrightarrow> length p = m_len g"
  by (cases g) (simp_all add: drawn_from_def)

lemma parts_length:
  "list_all2 drawn_from gs parts \<Longrightarrow> length (concat parts) = sum_list (map m_len gs)"
  by (induction gs parts rule: list_all2_induct) (simp_all add: drawn_from_length)


lemma drawn_from_alphabet: "drawn_from g p \<Longrightarrow> set p \<subseteq> alphabet g"
  by (auto simp: drawn_from_def alphabet_def split: sum.splits)

lemma parts_alphabet:
  "list_all2 drawn_from gs parts \<Longrightarrow> set (concat parts) \<subseteq> (\<Union>g\<in>set gs. alphabet g)"
proof (induction gs parts rule: list_all2_induct)
  case Nil
  then show ?case by simp
next
  case (Cons g p gs parts)
  from drawn_from_alphabet [OF Cons.hyps(1)] Cons.IH show ?case by auto
qed

subsection \<open>Generate on a composite\<close>

lemma Generate_parts:
  assumes ok: "stdlib_ok L" and g: "Generate L (Composite e r gs) = Inr (pw, c')"
  shows "\<exists>parts. list_all2 drawn_from gs parts \<and> mset pw = mset (concat parts)"
proof -
  from g obtain pw0 e0 where l: "generate_loop L gs [] e = Inr (pw0, e0)"
    by (auto split: sum.splits)
  obtain pw1 e1 where s: "shuffle L pw0 e0 = (pw1, e1)" by (cases "shuffle L pw0 e0")
  from g l s have "pw = pw1" by simp
  with shuffle_mset [OF ok s] have m: "mset pw = mset pw0" by simp
  from generate_loop_parts [OF ok l] obtain parts where
    "pw0 = [] @ concat parts" "list_all2 drawn_from gs parts" by blast
  with m show ?thesis by auto
qed

lemma Generate_returns:
  assumes ok: "stdlib_ok L" and v: "\<forall>g\<in>set gs. valid_class g"
  shows "\<exists>pw c'. Generate L (Composite e r gs) = Inr (pw, c')"
proof -
  from generate_loop_returns [OF ok v] obtain pw0 e0 where
    "generate_loop L gs [] e = Inr (pw0, e0)" by blast
  then show ?thesis by (cases "shuffle L pw0 e0") simp
qed

lemma Generate_length_eq:
  assumes ok: "stdlib_ok L" and g: "Generate L (Composite e r gs) = Inr (pw, c')"
  shows "length pw = sum_list (map m_len gs)"
proof -
  from Generate_parts [OF ok g] obtain parts where
    a: "list_all2 drawn_from gs parts" and m: "mset pw = mset (concat parts)" by blast
  from m have "length pw = length (concat parts)" by (rule mset_eq_length)
  with parts_length [OF a] show ?thesis by simp
qed

lemma main_generator_eq:
  "main_generator L rd =
     Inr (Composite (eng_seed L (fst (std_generate L state_size rd)))
            (snd (std_generate L state_size rd))
            [SymbolGenerator 2, DigitGenerator 2, UpperLetterGenerator 2, LowerLetterGenerator 4])"
  by (simp add: main_generator_def CompositePasswordGenerator_def split: prod.splits)

lemma main_classes_valid:
  "\<forall>g\<in>set [SymbolGenerator 2, DigitGenerator 2, UpperLetterGenerator 2, LowerLetterGenerator 4].
     valid_class g"
  by (simp add: valid_class_def SymbolGenerator_def DigitGenerator_def
      UpperLetterGenerator_def LowerLetterGenerator_def)

lemma Generate_leaves_no_throw:
  assumes "\<forall>g\<in>set gs. is_Basic g"
  shows "Generate L (Composite e r gs) \<noteq> Inl (runtime_error msg)"
proof
  assume t: "Generate L (Composite e r gs) = Inl (runtime_error msg)"
  then have "generate_loop L gs [] e = Inl (runtime_error msg)"
    by (auto split: sum.splits prod.splits)
  from generate_loop_leaves_error [OF assms this] show False by simp
qed

lemma Generate_reaches_composite:
  assumes "stdlib_ok L" and "\<forall>g\<in>set xs. valid_class g"
  shows "Generate L (Composite e r (xs @ Composite e2 r2 gs2 # ys))
           = Inl (runtime_error ''not implemented'')"
  using generate_loop_reaches_composite [OF assms, of e2 r2 gs2 ys "[]" e] by simp

section \<open>The claims\<close>

text \<open>
  Claim C1. Whenever \<open>Generate\<close> returns a password on a composite, its length is the sum
  of the lengths requested by the classes of the composite, and it does return when
  every class is a leaf with a non-empty alphabet (of at most \<open>2 ^ 31\<close> characters).
  For the composite that \<open>main\<close> builds (2 symbols, 2 digits, 2 upper-case and 4
  lower-case letters) \<open>Generate\<close> returns a password of exactly 10 characters, which
  \<open>main\<close> prints followed by a newline.
\<close>

theorem Generate_length:
  assumes "stdlib_ok L"
  shows "(\<forall>pw c'. Generate L (Composite e r gs) = Inr (pw, c')
            \<longrightarrow> length pw = sum_list (map m_len gs))
       \<and> ((\<forall>g\<in>set gs. valid_class g) \<longrightarrow> (\<exists>pw c'. Generate L (Composite e r gs) = Inr (pw, c')))
       \<and> (\<exists>c pw c'. main_generator L rd = Inr c \<and> Generate L c = Inr (pw, c')
             \<and> length pw = 10 \<and> main L rd = Inr (pw @ [CHR 0x0A]))"
proof (intro conjI allI impI)
  fix pw c'
  assume "Generate L (Composite e r gs) = Inr (pw, c')"
  with assms show "length pw = sum_list (map m_len gs)" by (rule Generate_length_eq)
next
  assume "\<forall>g\<in>set gs. valid_class g"
  with assms show "\<exists>pw c'. Generate L (Composite e r gs) = Inr (pw, c')"
    by (rule Generate_returns)
next
  let ?gs = "[SymbolGenerator 2, DigitGenerator 2, UpperLetterGenerator 2, LowerLetterGenerator 4]"
  let ?c = "Composite (eng_seed L (fst (std_generate L state_size rd)))
              (snd (std_generate L state_size rd)) ?gs"
  from Generate_returns [OF assms main_classes_valid] obtain pw c' where
    g: "Generate L ?c = Inr (pw, c')" by blast
  from Generate_length_eq [OF assms g] have "length pw = 10"
    by (simp add: SymbolGenerator_def DigitGenerator_def
        UpperLetterGenerator_def LowerLetterGenerator_def)
  moreover have "main L rd = Inr (pw @ [CHR 0x0A])"
    using g by (simp add: main_def main_generator_eq)
  ultimately show "\<exists>c pw c'. main_generator L rd = Inr c \<and> Generate L c = Inr (pw, c')
      \<and> length pw = 10 \<and> main L rd = Inr (pw @ [CHR 0x0A])"
    using g main_generator_eq [of L rd] by (intro exI [of _ ?c] exI [of _ pw] exI [of _ c']) simp
qed

text \<open>
  The theorem at the sample library, on one class of alphabet \<open>AB\<close> and length 3, and
  on \<open>main\<close>.
\<close>

theorem Generate_length_witness:
  "stdlib_ok toy
   \<and> list_all valid_class [Basic ''AB'' 3 :: (nat, nat) PasswordGenerator]
   \<and> Generate toy (Composite 0 0 [Basic ''AB'' 3]) = Inr (''ABA'', Composite 4 0 [Basic ''AB'' 3])
   \<and> length ''ABA'' = sum_list (map m_len [Basic ''AB'' 3 :: (nat, nat) PasswordGenerator])
   \<and> (\<exists>pw. main toy 0 = Inr (pw @ [CHR 0x0A]) \<and> length pw = 10)"
proof -
  have ev: "Generate toy (Composite 0 0 [Basic ''AB'' 3])
              = Inr (''ABA'', Composite 4 0 [Basic ''AB'' 3])"
    by code_simp
  have v: "\<forall>g\<in>set [Basic ''AB'' 3 :: (nat, nat) PasswordGenerator]. valid_class g"
    by (simp add: valid_class_def)
  then have v': "list_all valid_class [Basic ''AB'' 3 :: (nat, nat) PasswordGenerator]"
    by simp
  note inst = Generate_length [OF toy_ok, of 0 0 "[Basic ''AB'' 3]" 0]
  from inst ev
  have l: "length ''ABA'' = sum_list (map m_len [Basic ''AB'' 3 :: (nat, nat) PasswordGenerator])"
    by blast
  from inst have m: "\<exists>pw. main toy 0 = Inr (pw @ [CHR 0x0A]) \<and> length pw = 10"
    by blast
  from toy_ok v' ev l m show ?thesis by (intro conjI)
qed

text \<open>
  Claim C2. Whenever \<open>Generate\<close> returns a password on a composite, the password is, as a
  multiset, the union of one part per class, in the order of the classes: the part of a
  class has exactly as many characters as the class requests, each of its alphabet, and
  the lengths of the parts add up to the length of the password. So the shuffle only
  permutes what the loops have accumulated. \<open>Generate\<close> does return when every class is
  a leaf with a non-empty alphabet (of at most \<open>2 ^ 31\<close> characters).
\<close>

theorem Generate_contributions:
  assumes "stdlib_ok L"
  shows "(\<forall>pw c'. Generate L (Composite e r gs) = Inr (pw, c')
            \<longrightarrow> (\<exists>parts. list_all2 drawn_from gs parts
                   \<and> mset pw = mset (concat parts)
                   \<and> length pw = sum_list (map length parts)))
       \<and> ((\<forall>g\<in>set gs. valid_class g) \<longrightarrow> (\<exists>pw c'. Generate L (Composite e r gs) = Inr (pw, c')))"
proof (intro conjI allI impI)
  fix pw c'
  assume "Generate L (Composite e r gs) = Inr (pw, c')"
  from Generate_parts [OF assms this] obtain parts where
    a: "list_all2 drawn_from gs parts" and m: "mset pw = mset (concat parts)" by blast
  from m have "length pw = length (concat parts)" by (rule mset_eq_length)
  then have "length pw = sum_list (map length parts)" by (simp add: length_concat)
  with a m show "\<exists>parts. list_all2 drawn_from gs parts \<and> mset pw = mset (concat parts)
      \<and> length pw = sum_list (map length parts)" by blast
next
  assume "\<forall>g\<in>set gs. valid_class g"
  with assms show "\<exists>pw c'. Generate L (Composite e r gs) = Inr (pw, c')"
    by (rule Generate_returns)
qed

text \<open>The theorem at the sample library, on two classes.\<close>

theorem Generate_contributions_witness:
  "stdlib_ok toy
   \<and> list_all valid_class [Basic ''AB'' 2, Basic ''xyz'' 1 :: (nat, nat) PasswordGenerator]
   \<and> Generate toy (Composite 0 0 [Basic ''AB'' 2, Basic ''xyz'' 1])
       = Inr (''ABz'', Composite 4 0 [Basic ''AB'' 2, Basic ''xyz'' 1])
   \<and> (\<exists>parts. list_all2 drawn_from [Basic ''AB'' 2, Basic ''xyz'' 1 :: (nat, nat) PasswordGenerator] parts
         \<and> mset ''ABz'' = mset (concat parts)
         \<and> length ''ABz'' = sum_list (map length parts))"
proof -
  have ev: "Generate toy (Composite 0 0 [Basic ''AB'' 2, Basic ''xyz'' 1])
              = Inr (''ABz'', Composite 4 0 [Basic ''AB'' 2, Basic ''xyz'' 1])"
    by code_simp
  have v: "\<forall>g\<in>set [Basic ''AB'' 2, Basic ''xyz'' 1 :: (nat, nat) PasswordGenerator]. valid_class g"
    by (simp add: valid_class_def)
  then have v': "list_all valid_class [Basic ''AB'' 2, Basic ''xyz'' 1 :: (nat, nat) PasswordGenerator]"
    by simp
  from Generate_contributions [OF toy_ok, of 0 0 "[Basic ''AB'' 2, Basic ''xyz'' 1]"] ev
  have "\<exists>parts. list_all2 drawn_from [Basic ''AB'' 2, Basic ''xyz'' 1 :: (nat, nat) PasswordGenerator] parts
         \<and> mset ''ABz'' = mset (concat parts)
         \<and> length ''ABz'' = sum_list (map length parts)"
    by blast
  with toy_ok v' ev show ?thesis by (intro conjI)
qed




text \<open>
  Claim C4. Whenever \<open>Generate\<close> returns a password on a composite, every character of
  the password belongs to the union of the alphabets of its classes; and it does return
  when every class is a leaf with a non-empty alphabet (of at most \<open>2 ^ 31\<close>
  characters).
\<close>

theorem Generate_in_union:
  assumes "stdlib_ok L"
  shows "(\<forall>pw c'. Generate L (Composite e r gs) = Inr (pw, c')
            \<longrightarrow> set pw \<subseteq> (\<Union>g\<in>set gs. alphabet g))
       \<and> ((\<forall>g\<in>set gs. valid_class g) \<longrightarrow> (\<exists>pw c'. Generate L (Composite e r gs) = Inr (pw, c')))"
proof (intro conjI allI impI)
  fix pw c'
  assume "Generate L (Composite e r gs) = Inr (pw, c')"
  from Generate_parts [OF assms this] obtain parts where
    a: "list_all2 drawn_from gs parts" and m: "mset pw = mset (concat parts)" by blast
  from m have "set pw = set (concat parts)" by (rule mset_eq_setD)
  with parts_alphabet [OF a] show "set pw \<subseteq> (\<Union>g\<in>set gs. alphabet g)" by simp
next
  assume "\<forall>g\<in>set gs. valid_class g"
  with assms show "\<exists>pw c'. Generate L (Composite e r gs) = Inr (pw, c')"
    by (rule Generate_returns)
qed

text \<open>The theorem at the sample library, on two classes and another engine state.\<close>

theorem Generate_in_union_witness:
  "stdlib_ok toy
   \<and> list_all valid_class [Basic ''01'' 1, Basic ''ab'' 2 :: (nat, nat) PasswordGenerator]
   \<and> Generate toy (Composite 1 0 [Basic ''01'' 1, Basic ''ab'' 2])
       = Inr (''ab1'', Composite 5 0 [Basic ''01'' 1, Basic ''ab'' 2])
   \<and> set ''ab1'' \<subseteq> (\<Union>g\<in>set [Basic ''01'' 1, Basic ''ab'' 2 :: (nat, nat) PasswordGenerator]. alphabet g)"
proof -
  have ev: "Generate toy (Composite 1 0 [Basic ''01'' 1, Basic ''ab'' 2])
       = Inr (''ab1'', Composite 5 0 [Basic ''01'' 1, Basic ''ab'' 2])"
    by code_simp
  have v: "\<forall>g\<in>set [Basic ''01'' 1, Basic ''ab'' 2 :: (nat, nat) PasswordGenerator]. valid_class g"
    by (simp add: valid_class_def)
  then have v': "list_all valid_class [Basic ''01'' 1, Basic ''ab'' 2 :: (nat, nat) PasswordGenerator]"
    by simp
  from Generate_in_union [OF toy_ok, of 1 0 "[Basic ''01'' 1, Basic ''ab'' 2]"] ev
  have "set ''ab1'' \<subseteq> (\<Union>g\<in>set [Basic ''01'' 1, Basic ''ab'' 2 :: (nat, nat) PasswordGenerator]. alphabet g)"
    by blast
  with toy_ok v' ev show ?thesis by (intro conjI)
qed

text \<open>
  Claim C5. On a composite to which no class has been added, \<open>Generate\<close> returns the
  empty password and does not fail; the composite still has no class.
\<close>

theorem Generate_no_classes:
  assumes "stdlib_ok L"
  shows "\<exists>c'. Generate L (Composite e r []) = Inr ([], c') \<and> m_generators c' = []"
proof -
  obtain s e' where sh: "shuffle L [] e = (s, e')" by (cases "shuffle L [] e")
  from shuffle_mset [OF assms sh] have "s = []" by simp
  with sh show ?thesis by simp
qed

text \<open>
  The theorem at the sample library: only the engine has moved.
\<close>

theorem Generate_no_classes_witness:
  "stdlib_ok toy \<and> Generate toy (Composite 7 3 []) = Inr ([], Composite 8 3 [])"
proof -
  from Generate_no_classes [OF toy_ok, of 7 3] obtain c' where
    g: "Generate toy (Composite 7 3 []) = Inr ([], c')" by blast
  have "Generate toy (Composite 7 3 []) = Inr ([], Composite 8 3 [])"
    using g by (simp add: toy_def)
  with toy_ok show ?thesis by (intro conjI)
qed

text \<open>
  Claim C6, as the code has it. The four alphabets are the strings of the specification,
  character for character. The upper-case and the lower-case alphabet end in
  \<open>V, X, Y, W, Z\<close>: X comes before Y, and Y before W.
\<close>

theorem alphabets_exact:
  "AllowedChars (DigitGenerator n) = Inr ''0123456789''
   \<and> AllowedChars (SymbolGenerator n) = Inr ''!@#$%^&*()[]{}?<>''
   \<and> AllowedChars (UpperLetterGenerator n) = Inr ''ABCDEFGHIJKLMNOPQRSTUVXYWZ''
   \<and> AllowedChars (LowerLetterGenerator n) = Inr ''abcdefghijklmnopqrstuvxywz''
   \<and> suffix ''VXYWZ'' (allowed (UpperLetterGenerator n))
   \<and> suffix ''vxywz'' (allowed (LowerLetterGenerator n))"
  by (simp add: DigitGenerator_def SymbolGenerator_def UpperLetterGenerator_def
      LowerLetterGenerator_def suffix_def)

text \<open>
  Claim C6 as the specification states it fails in its last part: the upper-case
  alphabet does not have X before W before Y, since W comes after Y.
\<close>

theorem alphabets_order_counterexample:
  "\<not> subseq ''XWY'' (allowed (UpperLetterGenerator 2 :: (nat, nat) PasswordGenerator))"
  by (simp add: UpperLetterGenerator_def)

text \<open>
  Claim C7, as the code has it. \<open>Generate\<close> and \<open>Add\<close> on a leaf throw, and so do \<open>Length\<close>
  and \<open>AllowedChars\<close> on a composite, each with the message \<open>not implemented\<close>. \<open>Length\<close>
  and \<open>AllowedChars\<close> on a leaf and \<open>Add\<close> on a composite do not throw. \<open>Generate\<close> on a
  composite does not throw when all its generators are leaves, but it throws the same
  error when it reaches a generator that is itself a composite, of which it asks the
  alphabet: when the composite is the first generator, and, the standard library
  keeping its contract, when only leaves with non-empty alphabets (of at most
  \<open>2 ^ 31\<close> characters) stand before it, whatever follows it.
\<close>

theorem unsupported_operations:
  "Generate L (Basic chars len) = Inl (runtime_error ''not implemented'')
   \<and> Add (Basic chars len) g = Inl (runtime_error ''not implemented'')
   \<and> Length (Composite e r gs) = Inl (runtime_error ''not implemented'')
   \<and> AllowedChars (Composite e r gs) = Inl (runtime_error ''not implemented'')
   \<and> Length (Basic chars len) = Inr len
   \<and> AllowedChars (Basic chars len) = Inr chars
   \<and> Add (Composite e r gs) g = Inr (Composite e r (gs @ [g]))
   \<and> ((\<forall>g\<in>set gs. is_Basic g) \<longrightarrow> (\<forall>msg. Generate L (Composite e r gs) \<noteq> Inl (runtime_error msg)))
   \<and> Generate L (Composite e r (Composite e2 r2 gs2 # gs)) = Inl (runtime_error ''not implemented'')
   \<and> (stdlib_ok L \<and> (\<forall>g\<in>set xs. valid_class g)
        \<longrightarrow> Generate L (Composite e r (xs @ Composite e2 r2 gs2 # ys))
              = Inl (runtime_error ''not implemented''))"
  using Generate_leaves_no_throw [of gs L e r]
    Generate_reaches_composite [of L xs e r e2 r2 gs2 ys]
  by simp

text \<open>
  The theorem at the sample library: a composite of two leaves, and a composite that
  holds a composite after two digits.
\<close>

theorem unsupported_operations_witness:
  "list_all is_Basic [SymbolGenerator 1, LowerLetterGenerator 2 :: (nat, nat) PasswordGenerator]
   \<and> (\<forall>msg. Generate toy (Composite 0 0 [SymbolGenerator 1, LowerLetterGenerator 2])
          \<noteq> Inl (runtime_error msg))
   \<and> Generate toy (Composite 0 0 [SymbolGenerator 1, LowerLetterGenerator 2])
       = Inr (''!bc'', Composite 4 0 [SymbolGenerator 1, LowerLetterGenerator 2])
   \<and> stdlib_ok toy
   \<and> list_all valid_class [DigitGenerator 2 :: (nat, nat) PasswordGenerator]
   \<and> Generate toy (Composite 0 0 [DigitGenerator 2, Composite 1 1 [], LowerLetterGenerator 1])
       = Inl (runtime_error ''not implemented'')"
proof -
  have a: "\<forall>g\<in>set [SymbolGenerator 1, LowerLetterGenerator 2 :: (nat, nat) PasswordGenerator]. is_Basic g"
    by (simp add: SymbolGenerator_def LowerLetterGenerator_def)
  then have a': "list_all is_Basic [SymbolGenerator 1, LowerLetterGenerator 2 :: (nat, nat) PasswordGenerator]"
    by simp
  have ev: "Generate toy (Composite 0 0 [SymbolGenerator 1, LowerLetterGenerator 2])
       = Inr (''!bc'', Composite 4 0 [SymbolGenerator 1, LowerLetterGenerator 2])"
    by code_simp
  have v: "\<forall>g\<in>set [DigitGenerator 2 :: (nat, nat) PasswordGenerator]. valid_class g"
    by (simp add: valid_class_def DigitGenerator_def)
  then have v': "list_all valid_class [DigitGenerator 2 :: (nat, nat) PasswordGenerator]"
    by simp
  note inst = unsupported_operations [where L = toy and chars = "''x''" and len = 0
      and g = "Basic ''x'' 0" and e = 0 and r = 0
      and gs = "[SymbolGenerator 1, LowerLetterGenerator 2]"
      and ?e2.0 = 1 and ?r2.0 = 1 and ?gs2.0 = "[]"
      and xs = "[DigitGenerator 2]" and ys = "[LowerLetterGenerator 1]"]
  from inst a
  have n: "\<forall>msg. Generate toy (Composite 0 0 [SymbolGenerator 1, LowerLetterGenerator 2])
          \<noteq> Inl (runtime_error msg)" by blast
  from inst toy_ok v
  have t: "Generate toy (Composite 0 0 [DigitGenerator 2, Composite 1 1 [], LowerLetterGenerator 1])
       = Inl (runtime_error ''not implemented'')" by simp
  from a' n ev toy_ok v' t show ?thesis by (intro conjI)
qed

text \<open>
  Claim C7 as the specification states it fails in its last part: \<open>Generate\<close> is an
  operation that the composite implements, and it throws on a composite that holds a
  composite.
\<close>

theorem Generate_nested_counterexample:
  "Generate toy (Composite 0 0 [Composite 1 1 [DigitGenerator 2]])
     = Inl (runtime_error ''not implemented'')"
  by code_simp

text \<open>
  Claim C8. A leaf of requested length 0 is a generator like any other (\<open>Length\<close>
  returns 0), and with a non-empty alphabet (of at most \<open>2 ^ 31\<close> characters) it adds
  nothing to \<open>Generate\<close>: the composite that holds it anywhere in its sequence gives the
  same outcome, the same password and the same engine afterwards, as the composite of
  the remaining classes. Equal passwords are equal as multisets.
\<close>

theorem zero_length_class:
  assumes "chars \<noteq> []" and "length chars \<le> 2 ^ 31"
  shows "Length (Basic chars 0) = Inr 0
       \<and> password_and_engine (Generate L (Composite e r (xs @ Basic chars 0 # ys)))
           = password_and_engine (Generate L (Composite e r (xs @ ys)))"
  using generate_loop_zero_length [OF assms, of L xs ys "[]" e]
  by (simp add: password_and_engine_def split: sum.splits prod.splits)

text \<open>
  The theorem at the sample library, with ten digits of which none is requested.
\<close>

theorem zero_length_class_witness:
  "''0123456789'' \<noteq> [] \<and> length ''0123456789'' \<le> 2 ^ 31
   \<and> password_and_engine (Generate toy (Composite 0 0 [Basic ''AB'' 2, Basic ''0123456789'' 0, Basic ''xyz'' 1]))
       = Inr (''ABz'', 4)
   \<and> password_and_engine (Generate toy (Composite 0 0 [Basic ''AB'' 2, Basic ''xyz'' 1]))
       = Inr (''ABz'', 4)"
proof -
  have a: "''0123456789'' \<noteq> []" by simp
  have b: "length ''0123456789'' \<le> 2 ^ 31" by simp
  have ev: "password_and_engine (Generate toy (Composite 0 0 [Basic ''AB'' 2, Basic ''xyz'' 1]))
       = Inr (''ABz'', 4)" by code_simp
  from zero_length_class [OF a b, of toy 0 0 "[Basic ''AB'' 2]" "[Basic ''xyz'' 1]"] ev
  have "password_and_engine (Generate toy (Composite 0 0 [Basic ''AB'' 2, Basic ''0123456789'' 0, Basic ''xyz'' 1]))
       = Inr (''ABz'', 4)" by simp
  with a b ev show ?thesis by (intro conjI)
qed

text \<open>
  Claim C9. \<open>Add\<close> on a composite always succeeds. The generator given becomes the last
  element of the sequence, which grows by one; the generators that were there, their
  order, the engine and the random device are unchanged.
\<close>

theorem Add_appends:
  "\<exists>c'. Add (Composite e r gs) g = Inr c'
     \<and> m_generators c' = gs @ [g]
     \<and> length (m_generators c') = length gs + 1
     \<and> last (m_generators c') = g
     \<and> take (length gs) (m_generators c') = gs
     \<and> m_eng c' = e \<and> m_rd c' = r"
  by simp

text \<open>
  Claim C10. \<open>Generate\<close> reads of a composite its engine and its sequence of generators
  only: two composites with the same engine state and the same sequence, whatever their
  random devices, give the same outcome, the same password and the same engine state
  after the call.
\<close>

theorem Generate_deterministic:
  "password_and_engine (Generate L (Composite e r1 gs))
     = password_and_engine (Generate L (Composite e r2 gs))"
  by (simp add: password_and_engine_def split: sum.splits prod.splits)

end
